theory Spec2Isabelle
  imports Main
begin

section \<open>The OpenCL event operations of \<^verbatim>\<open>src/acc/opencl/acc_opencl_event.c\<close>\<close>

text \<open>
  The six functions of the file talk to three things: the host heap (\<^verbatim>\<open>malloc\<close>,
  \<^verbatim>\<open>free\<close>, reads and writes through the handles), the global \<^verbatim>\<open>cl_error\<close>, and
  the OpenCL runtime. The runtime is not part of the repository, so what it answers to
  each call is an argument of the model, and the calls issued are kept in a log. A
  handle is an address; where the C code itself reads or writes through an address that
  holds no object of the expected type, its behaviour is undefined, and the outcome is
  \<open>Fault\<close> here. A pointer that a function only hands on to the runtime is not
  dereferenced by it: what the runtime makes of it is part of the runtime's answer.
  \<^verbatim>\<open>verbose_print\<close> is the constant 0, so the \<^verbatim>\<open>fprintf\<close> branches are dead
  and left out.
\<close>

type_synonym addr = nat
type_synonym cl_int = int
type_synonym cl_event = nat
type_synonym cl_command_queue = nat
type_synonym cl_context = nat

text \<open>Constants of \<^verbatim>\<open>CL/cl.h\<close> and the null pointer.\<close>

definition NULL :: addr where
  "NULL = 0"

definition CL_SUCCESS :: cl_int where
  "CL_SUCCESS = 0"

definition CL_COMPLETE :: int where
  "CL_COMPLETE = 0"

definition CL_OUT_OF_RESOURCES :: cl_int where
  "CL_OUT_OF_RESOURCES = - 5"

definition CL_INVALID_CONTEXT :: cl_int where
  "CL_INVALID_CONTEXT = - 34"

definition CL_INVALID_EVENT :: cl_int where
  "CL_INVALID_EVENT = - 58"

text \<open>
  What a live heap object holds: the \<^verbatim>\<open>cl_event\<close> behind an event handle, the
  \<^verbatim>\<open>queue\<close> field of an \<^verbatim>\<open>acc_opencl_stream_type\<close> behind a stream handle, or
  the \<^verbatim>\<open>param_value\<close> buffer of \<^verbatim>\<open>acc_event_query\<close> (with the execution status the
  runtime wrote into it, if it wrote one).
\<close>

datatype cell =
    EventCell cl_event
  | StreamCell cl_command_queue
  | ParamBuf "cl_int option"

text \<open>The calls to the OpenCL runtime, with the arguments the code passes.\<close>

datatype cl_call =
    CreateUserEvent cl_context
  | SetUserEventStatus cl_event int
  | ReleaseEvent cl_event
  | EnqueueMarker cl_command_queue addr
  | GetEventInfo cl_event nat addr
  | EnqueueWaitForEvents cl_command_queue addr
  | WaitForEvents addr

record world =
  cl_error :: cl_int
  acc_opencl_my_device :: "cl_context option"
  heap :: "addr \<Rightarrow> cell option"
  calls :: "cl_call list"

text \<open>
  A call either faults (undefined behaviour of the C code) or returns a status, the
  value it leaves in the caller's out-parameter, and the new world.
\<close>

datatype 'a outcome =
    Fault
  | Returned int 'a world

text \<open>\<^verbatim>\<open>malloc\<close> answers the null pointer or an address that holds no live object.\<close>

definition malloc_ok :: "world \<Rightarrow> addr \<Rightarrow> bool" where
  "malloc_ok w p = (p = NULL \<or> heap w p = None)"

text \<open>
  Modelled from the spec: \<^verbatim>\<open>acc_opencl_error_check\<close> is declared in
  \<^verbatim>\<open>acc_opencl_error.h\<close>, which is not among the sources. Section 7 of the spec: a
  backend error is a device API call that failed, and it is always surfaced to the
  caller. The check is true exactly when the status is not \<^verbatim>\<open>CL_SUCCESS\<close>; the second
  argument is \<^verbatim>\<open>__LINE__\<close>.
\<close>

definition acc_opencl_error_check :: "cl_int \<Rightarrow> nat \<Rightarrow> bool" where
  "acc_opencl_error_check err line = (err \<noteq> CL_SUCCESS)"

text \<open>
  \<^verbatim>\<open>acc_event_create (void** event_p)\<close>. Arguments: the answer \<open>p\<close> of
  \<^verbatim>\<open>malloc\<close>, the answer \<open>cr\<close> of \<^verbatim>\<open>clCreateUserEvent\<close> (the event and the error
  code), the answer \<open>se\<close> of \<^verbatim>\<open>clSetUserEventStatus\<close>. The out value is what the
  function stored in \<^verbatim>\<open>*event_p\<close>. The status of \<^verbatim>\<open>clSetUserEventStatus\<close> is
  assigned to \<^verbatim>\<open>cl_error\<close> and never checked (lines 46 to 51).
\<close>

definition acc_event_create ::
  "world \<Rightarrow> addr \<Rightarrow> cl_event \<times> cl_int \<Rightarrow> cl_int \<Rightarrow> addr outcome" where
  "acc_event_create w p cr se =
     (case acc_opencl_my_device w of
        None \<Rightarrow> Fault
      | Some ctx \<Rightarrow>
          if p = NULL then Fault
          else
            let w1 = w\<lparr>cl_error := snd cr,
                       heap := (heap w)(p := Some (EventCell (fst cr))),
                       calls := calls w @ [CreateUserEvent ctx]\<rparr>
            in if acc_opencl_error_check (cl_error w1) 38 then Returned (- 1) p w1
               else Returned 0 p
                      (w1\<lparr>cl_error := se,
                          calls := calls w1 @ [SetUserEventStatus (fst cr) CL_COMPLETE]\<rparr>))"

text \<open>
  \<^verbatim>\<open>acc_event_destroy (void* event)\<close>; \<open>re\<close> is the answer of \<^verbatim>\<open>clReleaseEvent\<close>.
  The cell is freed only after the check.
\<close>

definition acc_event_destroy :: "world \<Rightarrow> addr \<Rightarrow> cl_int \<Rightarrow> unit outcome" where
  "acc_event_destroy w event re =
     (case heap w event of
        Some (EventCell ev) \<Rightarrow>
          let w1 = w\<lparr>cl_error := re, calls := calls w @ [ReleaseEvent ev]\<rparr>
          in if acc_opencl_error_check (cl_error w1) 71 then Returned (- 1) () w1
             else Returned 0 () (w1\<lparr>heap := (heap w1)(event := None)\<rparr>)
      | _ \<Rightarrow> Fault)"

text \<open>
  \<^verbatim>\<open>acc_event_record (void* event, void* stream)\<close>; \<open>em\<close> is the answer of
  \<^verbatim>\<open>clEnqueueMarker\<close>: the error code and the marker event it stored through the
  pointer \<^verbatim>\<open>clevent\<close>, if it stored one. The function reads the stream object
  (\<^verbatim>\<open>(*clstream).queue\<close>) and never reads \<^verbatim>\<open>*clevent\<close>: it passes the pointer
  on and returns by the runtime's answer, whatever the pointer is. Only a store of the
  runtime through a pointer that is not a live event cell is undefined.
\<close>

definition acc_event_record ::
  "world \<Rightarrow> addr \<Rightarrow> addr \<Rightarrow> cl_int \<times> cl_event option \<Rightarrow> unit outcome" where
  "acc_event_record w event stream em =
     (case heap w stream of
        Some (StreamCell queue) \<Rightarrow>
          let w1 = w\<lparr>cl_error := fst em, calls := calls w @ [EnqueueMarker queue event]\<rparr>
          in (case snd em of
                None \<Rightarrow>
                  if acc_opencl_error_check (cl_error w1) 100 then Returned (- 1) () w1
                  else Returned 0 () w1
              | Some ev' \<Rightarrow>
                  (case heap w event of
                     Some (EventCell ev) \<Rightarrow>
                       let w2 = w1\<lparr>heap := (heap w)(event := Some (EventCell ev'))\<rparr>
                       in if acc_opencl_error_check (cl_error w2) 100 then Returned (- 1) () w2
                          else Returned 0 () w2
                   | _ \<Rightarrow> Fault))
      | _ \<Rightarrow> Fault)"

text \<open>
  \<^verbatim>\<open>acc_event_query (void* event, int* has_occured)\<close>. Arguments: the value
  \<open>has_occured\<close> the caller's variable holds before the call; the answer \<open>sz\<close> of the
  first \<^verbatim>\<open>clGetEventInfo\<close> (error code and \<^verbatim>\<open>param_value_size\<close>); the answer
  \<open>q\<close> of \<^verbatim>\<open>malloc\<close>; the answer \<open>gi\<close> of the second \<^verbatim>\<open>clGetEventInfo\<close> (error
  code and the execution status the device reports, which the runtime writes into the
  buffer when there is one). The test at line 144 is \<^verbatim>\<open>param_value == CL_COMPLETE\<close>:
  it compares the pointer \<^verbatim>\<open>param_value\<close>, not the status stored behind it. On the
  two early returns \<^verbatim>\<open>*has_occured\<close> is not written; on the second one the buffer is
  not freed.
\<close>

definition acc_event_query ::
  "world \<Rightarrow> addr \<Rightarrow> int \<Rightarrow> cl_int \<times> nat \<Rightarrow> addr \<Rightarrow> cl_int \<times> cl_int \<Rightarrow> int outcome" where
  "acc_event_query w event has_occured sz q gi =
     (case heap w event of
        Some (EventCell ev) \<Rightarrow>
          let w1 = w\<lparr>cl_error := fst sz, calls := calls w @ [GetEventInfo ev 0 NULL]\<rparr>
          in if acc_opencl_error_check (cl_error w1) 135 then Returned (- 1) has_occured w1
             else
               let param_value_size = snd sz;
                   param_value = q;
                   w2 = (if param_value = NULL then w1
                         else w1\<lparr>heap := (heap w1)(param_value := Some (ParamBuf None))\<rparr>);
                   w3 = w2\<lparr>cl_error := fst gi,
                           heap := (if param_value \<noteq> NULL \<and> fst gi = CL_SUCCESS
                                    then (heap w2)(param_value := Some (ParamBuf (Some (snd gi))))
                                    else heap w2),
                           calls := calls w2 @ [GetEventInfo ev param_value_size param_value]\<rparr>
               in if acc_opencl_error_check (cl_error w3) 140 then Returned (- 1) has_occured w3
                  else
                    Returned 0 (if int param_value = CL_COMPLETE then 1 else 0)
                      (if param_value = NULL then w3
                       else w3\<lparr>heap := (heap w3)(param_value := None)\<rparr>)
      | _ \<Rightarrow> Fault)"

text \<open>
  \<^verbatim>\<open>acc_stream_wait_event (void* stream, void* event)\<close>; \<open>ew\<close> is the answer of
  \<^verbatim>\<open>clEnqueueWaitForEvents\<close>. The function reads the stream object only; the event
  pointer is passed on as the event list.
\<close>

definition acc_stream_wait_event :: "world \<Rightarrow> addr \<Rightarrow> addr \<Rightarrow> cl_int \<Rightarrow> unit outcome" where
  "acc_stream_wait_event w stream event ew =
     (case heap w stream of
        Some (StreamCell queue) \<Rightarrow>
          let w1 = w\<lparr>cl_error := ew,
                     calls := calls w @ [EnqueueWaitForEvents queue event]\<rparr>
          in if acc_opencl_error_check (cl_error w1) 179 then Returned (- 1) () w1
             else Returned 0 () w1
      | _ \<Rightarrow> Fault)"

text \<open>
  \<^verbatim>\<open>acc_event_synchronize (void* event)\<close>; \<open>wa\<close> is the answer of
  \<^verbatim>\<open>clWaitForEvents\<close>. The function dereferences nothing: it passes the event
  pointer on as the event list, and returns for every handle.
\<close>

definition acc_event_synchronize :: "world \<Rightarrow> addr \<Rightarrow> cl_int \<Rightarrow> unit outcome" where
  "acc_event_synchronize w event wa =
     (let w1 = w\<lparr>cl_error := wa, calls := calls w @ [WaitForEvents event]\<rparr>
      in if acc_opencl_error_check (cl_error w1) 206 then Returned (- 1) () w1
         else Returned 0 () w1)"

text \<open>
  One call of the interface with the answers of its environment, so that a statement
  can range over every operation of the file. The status and the world of a call that
  returns are read off the outcome.
\<close>

datatype event_call =
    Create addr "cl_event \<times> cl_int" cl_int
  | Destroy addr cl_int
  | Record addr addr "cl_int \<times> cl_event option"
  | Query addr int "cl_int \<times> nat" addr "cl_int \<times> cl_int"
  | StreamWaitEvent addr addr cl_int
  | Synchronize addr cl_int

definition result_of :: "'a outcome \<Rightarrow> (int \<times> world) option" where
  "result_of r = (case r of Fault \<Rightarrow> None | Returned st x w \<Rightarrow> Some (st, w))"

fun run_call :: "world \<Rightarrow> event_call \<Rightarrow> (int \<times> world) option" where
  "run_call w (Create p cr se) = result_of (acc_event_create w p cr se)"
| "run_call w (Destroy event re) = result_of (acc_event_destroy w event re)"
| "run_call w (Record event stream em) = result_of (acc_event_record w event stream em)"
| "run_call w (Query event has_occured sz q gi) =
     result_of (acc_event_query w event has_occured sz q gi)"
| "run_call w (StreamWaitEvent stream event ew) =
     result_of (acc_stream_wait_event w stream event ew)"
| "run_call w (Synchronize event wa) = result_of (acc_event_synchronize w event wa)"




text \<open>
  \<^verbatim>\<open>malloc\<close> is called by create (the event cell) and by query (the buffer); this
  says that its answer in the call is well-formed.
\<close>

fun call_malloc_ok :: "world \<Rightarrow> event_call \<Rightarrow> bool" where
  "call_malloc_ok w (Create p cr se) = malloc_ok w p"
| "call_malloc_ok w (Query event has_occured sz q gi) = malloc_ok w q"
| "call_malloc_ok w c = True"

text \<open>
  Worlds used as concrete inputs. In \<open>w_init\<close> a device context is set and nothing is
  allocated. \<open>w_created\<close> is \<open>w_init\<close> after a successful create that was given
  address 1 and event 7. \<open>w_failed\<close> is \<open>w_init\<close> after a create whose
  \<^verbatim>\<open>clCreateUserEvent\<close> failed. \<open>w_event_stream\<close> holds an event object at address
  1 and a stream object at address 2.
\<close>

definition w_init :: world where
  "w_init = \<lparr>cl_error = CL_SUCCESS, acc_opencl_my_device = Some 1,
             heap = (\<lambda>a. None), calls = []\<rparr>"

definition w_created :: world where
  "w_created = \<lparr>cl_error = CL_SUCCESS, acc_opencl_my_device = Some 1,
                heap = (\<lambda>a. if a = 1 then Some (EventCell 7) else None),
                calls = [CreateUserEvent 1, SetUserEventStatus 7 CL_COMPLETE]\<rparr>"

definition w_failed :: world where
  "w_failed = \<lparr>cl_error = CL_OUT_OF_RESOURCES, acc_opencl_my_device = Some 1,
               heap = (\<lambda>a. if a = 1 then Some (EventCell 0) else None),
               calls = [CreateUserEvent 1]\<rparr>"

definition w_event_stream :: world where
  "w_event_stream = \<lparr>cl_error = CL_SUCCESS, acc_opencl_my_device = Some 1,
                     heap = (\<lambda>a. if a = 1 then Some (EventCell 7)
                                  else if a = 2 then Some (StreamCell 9) else None),
                     calls = []\<rparr>"

section \<open>The macros of \<^verbatim>\<open>src/acc/mic/libxstream/include/libxstream_macros.h\<close>\<close>

definition LIBXSTREAM_ERROR_NONE :: int where
  "LIBXSTREAM_ERROR_NONE = 0"



text \<open>
  The check macros expand to statements inside a function: they let it go on, make it
  return a value, or (an \<^verbatim>\<open>assert\<close> that fails) abort. The first two arguments say
  whether \<^verbatim>\<open>LIBXSTREAM_CHECK\<close> and \<^verbatim>\<open>LIBXSTREAM_DEBUG\<close> are defined.
\<close>

datatype check_result =
    Continue
  | Return int
  | Abort

definition LIBXSTREAM_ASSERT :: "bool \<Rightarrow> bool \<Rightarrow> check_result" where
  "LIBXSTREAM_ASSERT debug a = (if debug then (if a then Continue else Abort) else Continue)"

definition LIBXSTREAM_CHECK_ERROR :: "bool \<Rightarrow> bool \<Rightarrow> int \<Rightarrow> check_result" where
  "LIBXSTREAM_CHECK_ERROR check debug return_value =
     (if check
      then (if LIBXSTREAM_ERROR_NONE \<noteq> return_value then Return return_value else Continue)
      else LIBXSTREAM_ASSERT debug (LIBXSTREAM_ERROR_NONE = return_value))"


text \<open>
  The three dispatch strategies, selected by the preprocessor (lines 157 to 187).
\<close>

datatype strategy =
    Synchronous
  | Asynchronous
  | CompilerStreams

text \<open>
  Modelled from the spec: the class \<^verbatim>\<open>libxstream_stream\<close> and the type
  \<^verbatim>\<open>libxstream_signal\<close> are not among the sources. Section 3 of the spec: a stream has
  a device, a signal counter that starts at 0, and a pending marker where 0 means idle;
  signals are integers.
\<close>

type_synonym libxstream_signal = nat

record libxstream_stream =
  m_device :: int
  m_signal :: libxstream_signal
  m_pending :: libxstream_signal
  m_handle :: nat

definition new_stream :: "int \<Rightarrow> nat \<Rightarrow> libxstream_stream" where
  "new_stream dev h = \<lparr>m_device = dev, m_signal = 0, m_pending = 0, m_handle = h\<rparr>"

text \<open>
  Modelled from the spec: the methods the macros call on a stream. Section 4.1:
  \<open>next_signal\<close> (\<^verbatim>\<open>stream_->signal()\<close>) returns the next unused signal value and
  advances the counter by one; \<open>mark_pending\<close> (\<^verbatim>\<open>stream_->pending(signal)\<close>) records
  that operations up to that signal are outstanding; \<open>is_ready\<close> is true iff pending is
  0. \<^verbatim>\<open>stream_->device()\<close>, \<^verbatim>\<open>stream_->pending()\<close> and \<^verbatim>\<open>stream_->handle()\<close> read
  the attributes.
\<close>

definition stream_device :: "libxstream_stream \<Rightarrow> int" where
  "stream_device s = m_device s"

definition next_signal :: "libxstream_stream \<Rightarrow> libxstream_signal \<times> libxstream_stream" where
  "next_signal s = (m_signal s + 1, s\<lparr>m_signal := m_signal s + 1\<rparr>)"

definition stream_pending :: "libxstream_stream \<Rightarrow> libxstream_signal" where
  "stream_pending s = m_pending s"

definition mark_pending :: "libxstream_stream \<Rightarrow> libxstream_signal \<Rightarrow> libxstream_stream" where
  "mark_pending s sig = s\<lparr>m_pending := sig\<rparr>"

definition is_ready :: "libxstream_stream \<Rightarrow> bool" where
  "is_ready s = (m_pending s = 0)"

definition stream_handle :: "libxstream_stream \<Rightarrow> nat" where
  "stream_handle s = m_handle s"

text \<open>
  The variables \<^verbatim>\<open>LIBXSTREAM_OFFLOAD_DECL\<close> declares at the start of a region's
  \<^verbatim>\<open>operator()\<close>: \<open>l_device\<close> is \<^verbatim>\<open>device_\<close>, \<open>l_signal\<close> is \<^verbatim>\<open>signal_\<close>, and so on
  (a name of the logic cannot end in an underscore); \<^verbatim>\<open>handle_\<close> exists under the
  compiler-streams strategy only.
\<close>

record offload_locals =
  l_device :: int
  l_signal :: libxstream_signal
  l_signal_consumed :: libxstream_signal
  l_pending :: libxstream_signal
  l_handle :: "nat option"

text \<open>
  \<^verbatim>\<open>LIBXSTREAM_OFFLOAD_DECL\<close> for each strategy. \<open>stream\<close> is the region's \<^verbatim>\<open>stream_\<close>
  (\<open>None\<close> for a null pointer); \<open>val0\<close> is the value of \<^verbatim>\<open>val<int,0>()\<close>, the
  region's argument 0, which is not among the sources. The result is the locals and the
  stream after the calls of its methods.
\<close>

definition LIBXSTREAM_OFFLOAD_DECL ::
  "strategy \<Rightarrow> libxstream_stream option \<Rightarrow> int
     \<Rightarrow> offload_locals \<times> libxstream_stream option" where
  "LIBXSTREAM_OFFLOAD_DECL strat stream val0 =
     (case strat of
        Synchronous \<Rightarrow>
          (\<lparr>l_device = (case stream of Some s \<Rightarrow> stream_device s | None \<Rightarrow> val0),
            l_signal = 0, l_signal_consumed = 0, l_pending = 0, l_handle = None\<rparr>, stream)
      | Asynchronous \<Rightarrow>
          (case stream of
             None \<Rightarrow>
               (\<lparr>l_device = val0, l_signal = 0, l_signal_consumed = 0, l_pending = 0,
                 l_handle = None\<rparr>, None)
           | Some s \<Rightarrow>
               let (sig, s1) = next_signal s
               in (\<lparr>l_device = stream_device s, l_signal = sig, l_signal_consumed = sig,
                    l_pending = stream_pending s1, l_handle = None\<rparr>, Some s1))
      | CompilerStreams \<Rightarrow>
          (case stream of
             None \<Rightarrow>
               (\<lparr>l_device = val0, l_signal = 0, l_signal_consumed = 0, l_pending = 0,
                 l_handle = Some 0\<rparr>, None)
           | Some s \<Rightarrow>
               let (sig, s1) = next_signal s
               in (\<lparr>l_device = stream_device s, l_signal = sig, l_signal_consumed = sig,
                    l_pending = stream_pending s1, l_handle = Some (stream_handle s1)\<rparr>,
                   Some s1)))"

definition LIBXSTREAM_OFFLOAD_READY :: "offload_locals \<Rightarrow> bool" where
  "LIBXSTREAM_OFFLOAD_READY l = (0 = l_pending l)"

text \<open>
  A run of a region's body is the sequence of the macro uses it executes, whatever
  branches it took to get there. The uses that touch the locals: an offload pragma with
  \<^verbatim>\<open>LIBXSTREAM_OFFLOAD_TARGET\<close>, with \<^verbatim>\<open>LIBXSTREAM_OFFLOAD_TARGET_SIGNAL\<close> or with
  \<^verbatim>\<open>LIBXSTREAM_OFFLOAD_TARGET_WAIT\<close>, and \<^verbatim>\<open>LIBXSTREAM_OFFLOAD_DEVICE_UPDATE\<close>.
  Under the asynchronous and the compiler-streams strategy the signal and the wait
  target carry the clause \<^verbatim>\<open>signal(signal_++)\<close>; under the synchronous strategy no
  target has it.
\<close>

datatype offload_stmt =
    OFFLOAD_TARGET
  | OFFLOAD_TARGET_SIGNAL
  | OFFLOAD_TARGET_WAIT
  | OFFLOAD_DEVICE_UPDATE int

definition offload_stmt_exec :: "strategy \<Rightarrow> offload_stmt \<Rightarrow> offload_locals \<Rightarrow> offload_locals" where
  "offload_stmt_exec strat stmt l =
     (case stmt of
        OFFLOAD_TARGET \<Rightarrow> l
      | OFFLOAD_TARGET_SIGNAL \<Rightarrow>
          (case strat of Synchronous \<Rightarrow> l | _ \<Rightarrow> l\<lparr>l_signal := l_signal l + 1\<rparr>)
      | OFFLOAD_TARGET_WAIT \<Rightarrow>
          (case strat of Synchronous \<Rightarrow> l | _ \<Rightarrow> l\<lparr>l_signal := l_signal l + 1\<rparr>)
      | OFFLOAD_DEVICE_UPDATE d \<Rightarrow> l\<lparr>l_device := d\<rparr>)"

text \<open>How many signals a body consumes: its signal and wait targets.\<close>

definition signals_consumed :: "offload_stmt list \<Rightarrow> nat" where
  "signals_consumed body =
     length (filter (\<lambda>stmt. stmt = OFFLOAD_TARGET_SIGNAL \<or> stmt = OFFLOAD_TARGET_WAIT) body)"

text \<open>
  \<^verbatim>\<open>LIBXSTREAM_OFFLOAD_END\<close>, the last statement of \<^verbatim>\<open>operator()\<close> (line 204):
  \<^verbatim>\<open>if (stream_ && signal_ != signal_consumed_) stream_->pending(signal_consumed_)\<close>.
\<close>

definition LIBXSTREAM_OFFLOAD_END ::
  "offload_locals \<Rightarrow> libxstream_stream option \<Rightarrow> libxstream_stream option" where
  "LIBXSTREAM_OFFLOAD_END l stream =
     (case stream of
        None \<Rightarrow> None
      | Some s \<Rightarrow>
          if l_signal l \<noteq> l_signal_consumed l then Some (mark_pending s (l_signal_consumed l))
          else Some s)"

text \<open>
  The region's \<^verbatim>\<open>operator()\<close>, as \<^verbatim>\<open>LIBXSTREAM_OFFLOAD_BEGIN\<close> and
  \<^verbatim>\<open>LIBXSTREAM_OFFLOAD_END\<close> build it: the declarations, the body, the end. The
  locals at the end of the body are \<open>offload_region_locals\<close>.
\<close>

definition offload_region_locals ::
  "strategy \<Rightarrow> libxstream_stream option \<Rightarrow> int \<Rightarrow> offload_stmt list \<Rightarrow> offload_locals" where
  "offload_region_locals strat stream val0 body =
     fold (offload_stmt_exec strat) body (fst (LIBXSTREAM_OFFLOAD_DECL strat stream val0))"

definition offload_region_call ::
  "strategy \<Rightarrow> libxstream_stream option \<Rightarrow> int \<Rightarrow> offload_stmt list
     \<Rightarrow> libxstream_stream option" where
  "offload_region_call strat stream val0 body =
     LIBXSTREAM_OFFLOAD_END (offload_region_locals strat stream val0 body)
       (snd (LIBXSTREAM_OFFLOAD_DECL strat stream val0))"

text \<open>
  Modelled from the spec: \<^verbatim>\<open>libxstream_offload\<close>, which \<^verbatim>\<open>LIBXSTREAM_OFFLOAD_END\<close>
  calls with the region and the wait flag, is not among the sources. Section 4.2: the
  region is executed; with \<open>wait\<close> the call blocks until it has completed, and
  (section 8) returns with pending equal to 0.
\<close>

definition libxstream_offload ::
  "strategy \<Rightarrow> libxstream_stream \<Rightarrow> int \<Rightarrow> offload_stmt list \<Rightarrow> bool \<Rightarrow> libxstream_stream" where
  "libxstream_offload strat s val0 body wait =
     (case offload_region_call strat (Some s) val0 body of
        None \<Rightarrow> s
      | Some s' \<Rightarrow> if wait then mark_pending s' 0 else s')"

text \<open>The operations on a stream: a dispatch and the three bookkeeping operations.\<close>

datatype stream_op =
    Dispatch "offload_stmt list" bool
  | NextSignal
  | MarkPending libxstream_signal
  | IsReady

fun stream_op_exec :: "strategy \<Rightarrow> libxstream_stream \<Rightarrow> stream_op \<Rightarrow> libxstream_stream" where
  "stream_op_exec strat s (Dispatch body wait) = libxstream_offload strat s 0 body wait"
| "stream_op_exec strat s NextSignal = snd (next_signal s)"
| "stream_op_exec strat s (MarkPending sig) = mark_pending s sig"
| "stream_op_exec strat s IsReady = s"

fun run_ops :: "strategy \<Rightarrow> libxstream_stream \<Rightarrow> stream_op list \<Rightarrow> libxstream_stream" where
  "run_ops strat s [] = s"
| "run_ops strat s (op # ops) = run_ops strat (stream_op_exec strat s op) ops"

text \<open>The invariant of section 3, and the sequences in which \<open>mark_pending\<close> is only
  given 0 or a signal value the stream has issued.\<close>

definition stream_inv :: "libxstream_stream \<Rightarrow> bool" where
  "stream_inv s = (m_pending s = 0 \<or> m_pending s \<le> m_signal s)"

fun marks_issued :: "strategy \<Rightarrow> libxstream_stream \<Rightarrow> stream_op list \<Rightarrow> bool" where
  "marks_issued strat s [] = True"
| "marks_issued strat s (MarkPending sig # ops) =
     (sig \<le> m_signal s \<and> marks_issued strat (mark_pending s sig) ops)"
| "marks_issued strat s (op # ops) = marks_issued strat (stream_op_exec strat s op) ops"

section \<open>Properties of the event operations\<close>

lemmas cl_consts = NULL_def CL_SUCCESS_def CL_COMPLETE_def CL_OUT_OF_RESOURCES_def
  CL_INVALID_CONTEXT_def CL_INVALID_EVENT_def

lemmas event_ops = acc_event_create_def acc_event_destroy_def acc_event_record_def
  acc_event_query_def acc_stream_wait_event_def acc_event_synchronize_def


text \<open>
  What a query that returns 0 stores in \<^verbatim>\<open>*has_occured\<close> depends on the answer of
  \<^verbatim>\<open>malloc\<close> alone: 1 for the null pointer, 0 for every other address.
\<close>

lemma query_reports_pointer:
  assumes "acc_event_query w event has_occured sz q gi = Returned 0 occ w'"
  shows "occ = (if q = NULL then 1 else 0)"
  using assms
  by (auto simp: acc_event_query_def Let_def cl_consts
           split: option.splits cell.splits if_splits)

text \<open>A destroy that fails leaves the heap as it was: the handle is not freed.\<close>

lemma destroy_failure_keeps_heap:
  assumes "acc_event_destroy w event re = Returned st u w'" and "st \<noteq> 0"
  shows "heap w' = heap w"
  using assms
  by (auto simp: acc_event_destroy_def Let_def split: option.splits cell.splits if_splits)


text \<open>
  After any call that returns a non-zero status, every address that held an event
  object still holds one (so a destroy of it does not fault), the address a failed
  create handed out holds one, and every stream object is as before.
\<close>

lemma failed_call_keeps_objects:
  assumes "run_call w c = Some (st, w')" and "st \<noteq> 0" and "call_malloc_ok w c"
  shows "(\<forall>a ev. heap w a = Some (EventCell ev) \<longrightarrow> (\<exists>ev'. heap w' a = Some (EventCell ev'))) \<and>
         (\<forall>p cr se. c = Create p cr se \<longrightarrow> heap w' p = Some (EventCell (fst cr))) \<and>
         (\<forall>a qu. heap w a = Some (StreamCell qu) \<longrightarrow> heap w' a = Some (StreamCell qu))"
  using assms
  by (cases c)
     (auto simp: result_of_def event_ops malloc_ok_def acc_opencl_error_check_def Let_def
           split: option.splits cell.splits if_splits)

lemma live_handle_destroy_returns:
  assumes "heap w event = Some (EventCell ev)"
  shows "acc_event_destroy w event re \<noteq> Fault"
  using assms by (simp add: acc_event_destroy_def Let_def)

text \<open>
  C1. A fresh event must report "not occurred". The create of \<open>w_init\<close> succeeds and
  leaves \<open>w_created\<close>, whose log shows the event forced to \<^verbatim>\<open>CL_COMPLETE\<close> by
  \<^verbatim>\<open>clSetUserEventStatus\<close>; a query of the fresh event in which \<^verbatim>\<open>malloc\<close> answers
  the null pointer then returns 0 and stores 1 in \<^verbatim>\<open>*has_occured\<close>, with no record
  in between.
\<close>

theorem fresh_event_reported_occurred:
  "acc_event_create w_init 1 (7, CL_SUCCESS) CL_SUCCESS = Returned 0 1 w_created \<and>
   acc_event_query w_created 1 0 (CL_SUCCESS, 4) NULL (CL_SUCCESS, CL_COMPLETE) =
     Returned 0 1
       (w_created\<lparr>calls := calls w_created @ [GetEventInfo 7 0 NULL, GetEventInfo 7 4 NULL]\<rparr>)"
  by (simp add: acc_event_create_def acc_event_query_def w_init_def w_created_def
        acc_opencl_error_check_def cl_consts Let_def fun_eq_iff)

text \<open>
  C2. A successful query must store 1 exactly when the device reports
  \<^verbatim>\<open>CL_COMPLETE\<close>. Here the device reports \<^verbatim>\<open>CL_COMPLETE\<close> for the event of
  \<open>w_created\<close>, \<^verbatim>\<open>malloc\<close> answers the address 5, and the query returns 0 and stores 0.
\<close>

theorem complete_event_reported_not_occurred:
  "acc_event_query w_created 1 0 (CL_SUCCESS, 4) 5 (CL_SUCCESS, CL_COMPLETE) =
     Returned 0 0
       (w_created\<lparr>calls := calls w_created @ [GetEventInfo 7 0 NULL, GetEventInfo 7 4 5]\<rparr>)"
  by (simp add: acc_event_query_def w_created_def acc_opencl_error_check_def cl_consts
        Let_def fun_eq_iff)

text \<open>
  C3, as stated: for some input \<^verbatim>\<open>acc_stream_wait_event\<close> returns a negative status
  other than \<open>- 1\<close>. No input does.
\<close>

theorem wait_event_no_condition_status:
  "\<not> (\<exists>w stream event ew st w'.
        acc_stream_wait_event w stream event ew = Returned st () w' \<and> st < 0 \<and> st \<noteq> - 1)"
  by (auto simp: acc_stream_wait_event_def Let_def split: option.splits cell.splits if_splits)

text \<open>
  C3, amended: given a live stream object, \<^verbatim>\<open>acc_stream_wait_event\<close> returns for
  every event handle: \<open>- 1\<close>, the status of every backend error, when the runtime
  rejects the wait (\<^verbatim>\<open>clEnqueueWaitForEvents\<close> answers an error, such as
  \<^verbatim>\<open>CL_INVALID_CONTEXT\<close> for an event of another context), and 0 when the runtime
  accepts it; and whenever it returns, its status is one of these two, decided by the
  runtime's answer alone.
\<close>

theorem wait_event_status:
  "(heap w stream = Some (StreamCell queue) \<longrightarrow>
      acc_stream_wait_event w stream event ew =
        Returned (if ew = CL_SUCCESS then 0 else - 1) ()
          (w\<lparr>cl_error := ew, calls := calls w @ [EnqueueWaitForEvents queue event]\<rparr>)) \<and>
   (acc_stream_wait_event w stream event ew = Returned st u w' \<longrightarrow>
      st = (if ew = CL_SUCCESS then 0 else - 1))"
  by (auto simp: acc_stream_wait_event_def acc_opencl_error_check_def Let_def
           split: option.splits cell.splits if_splits)

theorem wait_event_status_witness:
  "heap w_event_stream 2 = Some (StreamCell 9) \<and>
   acc_stream_wait_event w_event_stream 2 1 CL_INVALID_CONTEXT =
     Returned (- 1) ()
       (w_event_stream\<lparr>cl_error := CL_INVALID_CONTEXT, calls := [EnqueueWaitForEvents 9 1]\<rparr>) \<and>
   acc_stream_wait_event w_event_stream 2 1 CL_SUCCESS =
     Returned 0 ()
       (w_event_stream\<lparr>cl_error := CL_SUCCESS, calls := [EnqueueWaitForEvents 9 1]\<rparr>) \<and>
   acc_stream_wait_event w_event_stream 2 NULL CL_INVALID_EVENT =
     Returned (- 1) ()
       (w_event_stream\<lparr>cl_error := CL_INVALID_EVENT, calls := [EnqueueWaitForEvents 9 NULL]\<rparr>)"
proof -
  have h: "heap w_event_stream 2 = Some (StreamCell 9)"
    by (simp add: w_event_stream_def)
  have c: "calls w_event_stream = []"
    by (simp add: w_event_stream_def)
  from wait_event_status [where w = w_event_stream and stream = 2 and queue = 9
      and event = 1 and ew = CL_INVALID_CONTEXT, THEN conjunct1] h c
  have a: "acc_stream_wait_event w_event_stream 2 1 CL_INVALID_CONTEXT =
     Returned (- 1) ()
       (w_event_stream\<lparr>cl_error := CL_INVALID_CONTEXT, calls := [EnqueueWaitForEvents 9 1]\<rparr>)"
    by (simp add: cl_consts)
  from wait_event_status [where w = w_event_stream and stream = 2 and queue = 9
      and event = 1 and ew = CL_SUCCESS, THEN conjunct1] h c
  have b: "acc_stream_wait_event w_event_stream 2 1 CL_SUCCESS =
     Returned 0 ()
       (w_event_stream\<lparr>cl_error := CL_SUCCESS, calls := [EnqueueWaitForEvents 9 1]\<rparr>)"
    by simp
  from wait_event_status [where w = w_event_stream and stream = 2 and queue = 9
      and event = NULL and ew = CL_INVALID_EVENT, THEN conjunct1] h c
  have d: "acc_stream_wait_event w_event_stream 2 NULL CL_INVALID_EVENT =
     Returned (- 1) ()
       (w_event_stream\<lparr>cl_error := CL_INVALID_EVENT, calls := [EnqueueWaitForEvents 9 NULL]\<rparr>)"
    by (simp add: cl_consts)
  from h a b d show ?thesis by simp
qed

text \<open>
  C4. No failure of a runtime call may be absorbed. In this create
  \<^verbatim>\<open>clCreateUserEvent\<close> succeeds and \<^verbatim>\<open>clSetUserEventStatus\<close> answers
  \<^verbatim>\<open>CL_OUT_OF_RESOURCES\<close>; the function returns 0, and the error is left in
  \<^verbatim>\<open>cl_error\<close>.
\<close>

theorem create_absorbs_set_status_failure:
  "acc_event_create w_init 1 (7, CL_SUCCESS) CL_OUT_OF_RESOURCES =
     Returned 0 1 (w_created\<lparr>cl_error := CL_OUT_OF_RESOURCES\<rparr>) \<and>
   CL_OUT_OF_RESOURCES \<noteq> CL_SUCCESS"
  by (simp add: acc_event_create_def w_init_def w_created_def acc_opencl_error_check_def
        cl_consts Let_def fun_eq_iff)




text \<open>
  C9. A runtime call that fails inside an event operation must give a non-zero
  status. The create below returns 0 although \<^verbatim>\<open>clSetUserEventStatus\<close> failed (the
  defect of C4, seen through \<open>run_call\<close>). For the rest of the claim see
  \<open>failed_call_keeps_objects\<close> and \<open>destroy_failure_keeps_heap\<close>.
\<close>

theorem failed_set_status_gives_status_zero:
  "run_call w_init (Create 1 (7, CL_SUCCESS) CL_OUT_OF_RESOURCES) =
     Some (0, w_created\<lparr>cl_error := CL_OUT_OF_RESOURCES\<rparr>)"
  by (simp add: result_of_def acc_event_create_def w_init_def w_created_def
        acc_opencl_error_check_def cl_consts Let_def fun_eq_iff)

text \<open>
  C10. \<^verbatim>\<open>acc_event_create\<close> stores the address \<^verbatim>\<open>malloc\<close> gave it in
  \<^verbatim>\<open>*event_p\<close> before any check. With a device context set and a non-null answer of
  \<^verbatim>\<open>malloc\<close> it returns, with \<open>- 1\<close> exactly when \<^verbatim>\<open>clCreateUserEvent\<close> failed,
  and in either case the caller's variable holds that address and the address holds a
  live event cell. Whenever it returns, whatever the status, the stored handle is the
  non-null address of \<^verbatim>\<open>malloc\<close>, which was not allocated before the call and is
  live after it.
\<close>

theorem create_writes_handle_before_check:
  "(acc_opencl_my_device w \<noteq> None \<longrightarrow> p \<noteq> NULL \<longrightarrow>
      (\<exists>w'. acc_event_create w p cr se =
               Returned (if snd cr \<noteq> CL_SUCCESS then - 1 else 0) p w' \<and>
            heap w' p = Some (EventCell (fst cr)))) \<and>
   (acc_event_create w p cr se = Returned st h w' \<longrightarrow> malloc_ok w p \<longrightarrow>
      h = p \<and> h \<noteq> NULL \<and> heap w h = None \<and> heap w' h = Some (EventCell (fst cr)) \<and>
      (st = - 1) = (snd cr \<noteq> CL_SUCCESS))"
  by (auto simp: acc_event_create_def malloc_ok_def acc_opencl_error_check_def Let_def
           split: option.splits if_splits)

theorem create_writes_handle_before_check_witness:
  "acc_opencl_my_device w_init \<noteq> None \<and> (1 :: addr) \<noteq> NULL \<and> malloc_ok w_init 1 \<and>
   acc_event_create w_init 1 (0, CL_OUT_OF_RESOURCES) CL_SUCCESS = Returned (- 1) 1 w_failed \<and>
   heap w_init 1 = None \<and> heap w_failed 1 = Some (EventCell 0)"
proof -
  have d: "acc_opencl_my_device w_init \<noteq> None"
    by (simp add: w_init_def)
  have n: "(1 :: addr) \<noteq> NULL"
    by (simp add: NULL_def)
  have m: "malloc_ok w_init 1"
    by (simp add: malloc_ok_def w_init_def)
  have r: "acc_event_create w_init 1 (0, CL_OUT_OF_RESOURCES) CL_SUCCESS =
             Returned (- 1) 1 w_failed"
    by (simp add: acc_event_create_def w_init_def w_failed_def acc_opencl_error_check_def
          cl_consts Let_def fun_eq_iff)
  from create_writes_handle_before_check [where w = w_init and p = 1
      and cr = "(0, CL_OUT_OF_RESOURCES)" and se = CL_SUCCESS and st = "- 1" and h = 1
      and w' = w_failed] d n m r
  have "heap w_init 1 = None \<and> heap w_failed 1 = Some (EventCell 0)"
    by simp
  with d n m r show ?thesis by simp
qed

section \<open>Properties of the offload regions\<close>

lemmas region_defs = offload_region_call_def offload_region_locals_def
  LIBXSTREAM_OFFLOAD_DECL_def LIBXSTREAM_OFFLOAD_END_def next_signal_def mark_pending_def
  stream_pending_def stream_device_def stream_handle_def

text \<open>
  The body moves \<^verbatim>\<open>signal_\<close> by one for each signal or wait target, except under
  the synchronous strategy, where it stays; the constants it cannot change.
\<close>

lemma body_signal:
  "strat \<noteq> Synchronous \<Longrightarrow>
   l_signal (fold (offload_stmt_exec strat) body l) = l_signal l + signals_consumed body"
  by (induction body arbitrary: l)
     (auto simp: offload_stmt_exec_def signals_consumed_def
           split: offload_stmt.splits strategy.splits)

lemma body_signal_synchronous:
  "l_signal (fold (offload_stmt_exec Synchronous) body l) = l_signal l"
  by (induction body arbitrary: l)
     (auto simp: offload_stmt_exec_def split: offload_stmt.splits)

lemma body_constants:
  "l_signal_consumed (fold (offload_stmt_exec strat) body l) = l_signal_consumed l \<and>
   l_pending (fold (offload_stmt_exec strat) body l) = l_pending l \<and>
   l_handle (fold (offload_stmt_exec strat) body l) = l_handle l"
  by (induction body arbitrary: l)
     (auto simp: offload_stmt_exec_def split: offload_stmt.splits strategy.splits)

text \<open>
  C6. Under the asynchronous strategy a region run on a stream takes the next signal
  as its snapshot; at its end the local signal differs from the snapshot exactly when
  the body consumed a signal, and then the stream's pending marker is set to the
  snapshot; when the body consumed none, pending is what it was before the region.
  Without a stream there is no marker to update.
\<close>

theorem asynchronous_region_pending:
  "offload_region_call Asynchronous (Some s) val0 body =
     Some (s\<lparr>m_signal := m_signal s + 1,
             m_pending := (if 0 < signals_consumed body then m_signal s + 1
                           else m_pending s)\<rparr>) \<and>
   (l_signal (offload_region_locals Asynchronous (Some s) val0 body) \<noteq>
      l_signal_consumed (offload_region_locals Asynchronous (Some s) val0 body)) =
     (0 < signals_consumed body) \<and>
   l_signal_consumed (offload_region_locals Asynchronous (Some s) val0 body) =
     fst (next_signal s) \<and>
   fst (next_signal s) = m_signal s + 1 \<and>
   offload_region_call Asynchronous None val0 body = None"
  by (simp add: region_defs body_signal body_constants)

text \<open>
  C7, as stated: under the synchronous strategy the device is bound to 0 whatever the
  stream. For a stream on device 3 it is bound to 3.
\<close>

theorem synchronous_device_from_stream:
  "l_device (fst (LIBXSTREAM_OFFLOAD_DECL Synchronous (Some (new_stream 3 0)) 0)) \<noteq> 0"
  by (simp add: LIBXSTREAM_OFFLOAD_DECL_def new_stream_def stream_device_def)

text \<open>
  C7, amended: under the synchronous strategy the declarations bind signal,
  signal_consumed and pending to 0 whatever the stream holds, they stay 0 to the end of
  the body, and the region leaves the stream as it was; the device is the stream's
  device when there is a stream, and the value of \<^verbatim>\<open>val<int,0>()\<close> when there is
  none.
\<close>

theorem synchronous_region_locals:
  "l_signal (fst (LIBXSTREAM_OFFLOAD_DECL Synchronous stream val0)) = 0 \<and>
   l_signal_consumed (fst (LIBXSTREAM_OFFLOAD_DECL Synchronous stream val0)) = 0 \<and>
   l_pending (fst (LIBXSTREAM_OFFLOAD_DECL Synchronous stream val0)) = 0 \<and>
   l_device (fst (LIBXSTREAM_OFFLOAD_DECL Synchronous stream val0)) =
     (case stream of Some s \<Rightarrow> m_device s | None \<Rightarrow> val0) \<and>
   snd (LIBXSTREAM_OFFLOAD_DECL Synchronous stream val0) = stream \<and>
   l_signal (offload_region_locals Synchronous stream val0 body) = 0 \<and>
   l_signal_consumed (offload_region_locals Synchronous stream val0 body) = 0 \<and>
   l_pending (offload_region_locals Synchronous stream val0 body) = 0 \<and>
   offload_region_call Synchronous stream val0 body = stream"
  by (simp add: region_defs body_signal_synchronous body_constants split: option.splits)

text \<open>A dispatch keeps the invariant and does not lower the signal counter.\<close>

lemma offload_keeps_invariant:
  "stream_inv s \<Longrightarrow>
   stream_inv (libxstream_offload strat s val0 body wait) \<and>
   m_signal s \<le> m_signal (libxstream_offload strat s val0 body wait)"
  by (cases strat)
     (auto simp: libxstream_offload_def region_defs stream_inv_def body_signal
           body_signal_synchronous body_constants)

lemma stream_op_keeps_invariant:
  "stream_inv s \<Longrightarrow> marks_issued strat s (op # ops) \<Longrightarrow>
   stream_inv (stream_op_exec strat s op) \<and>
   m_signal s \<le> m_signal (stream_op_exec strat s op) \<and>
   marks_issued strat (stream_op_exec strat s op) ops"
  using offload_keeps_invariant [of s strat 0]
  by (cases op) (auto simp: next_signal_def mark_pending_def stream_inv_def)

text \<open>
  C8, as stated: the invariant holds across every sequence of dispatch and bookkeeping
  operations. \<open>mark_pending\<close> takes any signal: on a new stream, marking 5 leaves
  pending above the signal counter.
\<close>

theorem mark_pending_above_signal:
  "\<not> stream_inv (run_ops Asynchronous (new_stream 0 0) [MarkPending 5])"
  by (simp add: stream_inv_def new_stream_def mark_pending_def)

text \<open>
  C8, amended: across every sequence of dispatches and bookkeeping operations in which
  \<open>mark_pending\<close> is only given 0 or a signal value up to the current counter, under
  each strategy, pending is 0 or at most the signal counter, and the signal counter
  does not decrease. A new stream starts with both at 0.
\<close>

theorem stream_invariant_kept:
  "stream_inv s \<Longrightarrow> marks_issued strat s ops \<Longrightarrow>
   stream_inv (run_ops strat s ops) \<and> m_signal s \<le> m_signal (run_ops strat s ops)"
proof (induction ops arbitrary: s)
  case Nil
  then show ?case by simp
next
  case (Cons op ops)
  from stream_op_keeps_invariant [OF Cons.prems]
  have a: "stream_inv (stream_op_exec strat s op)"
    and b: "m_signal s \<le> m_signal (stream_op_exec strat s op)"
    and c: "marks_issued strat (stream_op_exec strat s op) ops"
    by simp_all
  from Cons.IH [OF a c] b show ?case by simp
qed

theorem stream_invariant_kept_witness:
  "stream_inv (new_stream 0 0) \<and>
   marks_issued Asynchronous (new_stream 0 0)
     [Dispatch [OFFLOAD_TARGET_SIGNAL] False, NextSignal, MarkPending 2, IsReady,
      Dispatch [OFFLOAD_TARGET_WAIT] True] \<and>
   stream_inv (run_ops Asynchronous (new_stream 0 0)
     [Dispatch [OFFLOAD_TARGET_SIGNAL] False, NextSignal, MarkPending 2, IsReady,
      Dispatch [OFFLOAD_TARGET_WAIT] True]) \<and>
   m_signal (new_stream 0 0) \<le> m_signal (run_ops Asynchronous (new_stream 0 0)
     [Dispatch [OFFLOAD_TARGET_SIGNAL] False, NextSignal, MarkPending 2, IsReady,
      Dispatch [OFFLOAD_TARGET_WAIT] True])"
proof -
  have i: "stream_inv (new_stream 0 0)"
    by (simp add: stream_inv_def new_stream_def)
  have m: "marks_issued Asynchronous (new_stream 0 0)
     [Dispatch [OFFLOAD_TARGET_SIGNAL] False, NextSignal, MarkPending 2, IsReady,
      Dispatch [OFFLOAD_TARGET_WAIT] True]"
    by (simp add: new_stream_def libxstream_offload_def region_defs offload_stmt_exec_def)
  from stream_invariant_kept [OF i m] i m show ?thesis by simp
qed

end
